theory Spec2Isabelle
  imports Main "HOL-Library.Sublist" "HOL-Library.AList"
begin

section \<open>The forward proxy handler of proxy/handler.go\<close>

text \<open>
  The development embeds \<^verbatim>\<open>proxy/handler.go\<close>: the handler struct, its constructor,
  \<^verbatim>\<open>ServeHTTP\<close> and the helpers it calls. Strings are byte lists, Go's \<^verbatim>\<open>int\<close> is
  \<^typ>\<open>int\<close>, an \<^verbatim>\<open>(x, error)\<close> result is a sum with the error message on the left.
  What handler.go calls in Go's standard library (\<^verbatim>\<open>strings\<close>, \<^verbatim>\<open>net/http\<close>,
  \<^verbatim>\<open>net/textproto\<close>) is modelled by its documented behaviour.
\<close>

subsection \<open>Package strings\<close>

text \<open>\<^verbatim>\<open>strings.HasSuffix(s, suffix)\<close>:
  \<^verbatim>\<open>len(s) >= len(suffix) && s[len(s)-len(suffix):] == suffix\<close>.\<close>

definition HasSuffix :: "string \<Rightarrow> string \<Rightarrow> bool" where
  "HasSuffix s sfx = (length s \<ge> length sfx \<and> drop (length s - length sfx) s = sfx)"

text \<open>\<^verbatim>\<open>strings.HasPrefix(s, prefix)\<close>:
  \<^verbatim>\<open>len(s) >= len(prefix) && s[:len(prefix)] == prefix\<close>.\<close>

definition HasPrefix :: "string \<Rightarrow> string \<Rightarrow> bool" where
  "HasPrefix s pfx = (length s \<ge> length pfx \<and> take (length pfx) s = pfx)"

text \<open>\<^verbatim>\<open>strings.Contains(s, substr)\<close> is \<^verbatim>\<open>Index(s, substr) >= 0\<close>: some position of
  \<^verbatim>\<open>s\<close> (the end included, for the empty \<^verbatim>\<open>substr\<close>) starts an occurrence.\<close>

fun Contains :: "string \<Rightarrow> string \<Rightarrow> bool" where
  "Contains [] sub = (sub = [])"
| "Contains (c # cs) sub = (HasPrefix (c # cs) sub \<or> Contains cs sub)"

subsection \<open>Header maps (net/http Header, net/textproto MIMEHeader)\<close>

text \<open>
  \<^verbatim>\<open>type Header map[string][]string\<close>. The map is an association list: its entries
  in the order a \<^verbatim>\<open>range\<close> loop visits them, which Go leaves unspecified, so a statement
  about every list covers every iteration order. A Go map holds each key once.
\<close>

type_synonym header = "(string \<times> string list) list"

definition isDigit :: "char \<Rightarrow> bool" where
  "isDigit c = (48 \<le> (of_char c :: nat) \<and> (of_char c :: nat) \<le> 57)"

definition isLower :: "char \<Rightarrow> bool" where
  "isLower c = (97 \<le> (of_char c :: nat) \<and> (of_char c :: nat) \<le> 122)"

definition isUpper :: "char \<Rightarrow> bool" where
  "isUpper c = (65 \<le> (of_char c :: nat) \<and> (of_char c :: nat) \<le> 90)"

text \<open>The token bytes of RFC 7230: letters, digits and \<^verbatim>\<open>!#$%&'*+-.^_`|~\<close>. Both
  \<^verbatim>\<open>textproto.validHeaderFieldByte\<close> and \<^verbatim>\<open>httpguts.IsTokenRune\<close> are this table.\<close>

definition validHeaderFieldByte :: "char \<Rightarrow> bool" where
  "validHeaderFieldByte c =
     (isDigit c \<or> isLower c \<or> isUpper c \<or> c \<in> set ''!#$%&*+-.^_`|~'' \<or> c = CHR 0x27)"

text \<open>The canonicalising loop of \<^verbatim>\<open>textproto.canonicalMIMEHeaderKey\<close>: the first letter
  and every letter after a dash in upper case, the others in lower case.\<close>

definition canonicalByte :: "bool \<Rightarrow> char \<Rightarrow> char" where
  "canonicalByte upper c =
     (if upper \<and> isLower c then char_of (of_char c - (32 :: nat))
      else if \<not> upper \<and> isUpper c then char_of (of_char c + (32 :: nat))
      else c)"

fun canonicalBytes :: "bool \<Rightarrow> string \<Rightarrow> string" where
  "canonicalBytes upper [] = []"
| "canonicalBytes upper (c # cs) =
     canonicalByte upper c # canonicalBytes (canonicalByte upper c = CHR ''-'') cs"

text \<open>\<^verbatim>\<open>textproto.CanonicalMIMEHeaderKey\<close>: a key with a byte outside the token table
  is returned unchanged.\<close>

definition CanonicalMIMEHeaderKey :: "string \<Rightarrow> string" where
  "CanonicalMIMEHeaderKey s =
     (if list_all validHeaderFieldByte s then canonicalBytes True s else s)"

text \<open>\<^verbatim>\<open>Header.Get\<close>: the first value under the canonical key, \<^verbatim>\<open>""\<close> when the key is
  absent or its list is empty.\<close>

definition Get :: "header \<Rightarrow> string \<Rightarrow> string" where
  "Get h key =
     (case map_of h (CanonicalMIMEHeaderKey key) of
        None \<Rightarrow> []
      | Some [] \<Rightarrow> []
      | Some (v # _) \<Rightarrow> v)"

text \<open>\<^verbatim>\<open>h[key]\<close> as a list: the values under a key, none when the key is absent.\<close>

definition values_of :: "header \<Rightarrow> string \<Rightarrow> string list" where
  "values_of h k = (case map_of h k of None \<Rightarrow> [] | Some vs \<Rightarrow> vs)"

text \<open>\<^verbatim>\<open>Header.Add\<close>: appends the value to the list under the canonical key.\<close>

definition Add :: "header \<Rightarrow> string \<Rightarrow> string \<Rightarrow> header" where
  "Add h key v =
     (let k = CanonicalMIMEHeaderKey key
      in case map_of h k of
           None \<Rightarrow> h @ [(k, [v])]
         | Some vs \<Rightarrow> AList.update k (vs @ [v]) h)"

text \<open>\<^verbatim>\<open>Header.Set\<close>: replaces the list under the canonical key by the single value.\<close>

definition Set_hdr :: "header \<Rightarrow> string \<Rightarrow> string \<Rightarrow> header" where
  "Set_hdr h key v = AList.update (CanonicalMIMEHeaderKey key) [v] h"

text \<open>\<^verbatim>\<open>Header.Del\<close>: deletes the canonical key.\<close>

definition Del :: "header \<Rightarrow> string \<Rightarrow> header" where
  "Del h key = AList.delete (CanonicalMIMEHeaderKey key) h"

subsection \<open>Requests, responses and the response writer (net/http)\<close>

text \<open>\<^verbatim>\<open>url.URL\<close>: the two fields the handler reads, and \<^verbatim>\<open>String\<close>, the text that
  \<^verbatim>\<open>r.URL.String()\<close> returns for this URL (net/url's rendering, outside this repository).
  \<^verbatim>\<open>UHost\<close> is the URL's \<^verbatim>\<open>Host\<close> field; the name \<^verbatim>\<open>Host\<close> is kept for the request's.\<close>

record url =
  Scheme :: string
  UHost :: string
  String :: string

text \<open>\<^verbatim>\<open>http.Request\<close>: the fields the handler reads or writes.\<close>

record request =
  Method :: string
  URL :: url
  Header :: header
  Body :: string
  Host :: string
  RemoteAddr :: string

text \<open>\<^verbatim>\<open>http.Response\<close>: \<^verbatim>\<open>RespHeader\<close> is its \<^verbatim>\<open>Header\<close>, and \<^verbatim>\<open>RespBody\<close> is what
  \<^verbatim>\<open>io.ReadAll(resp.Body)\<close> returns: the bytes, or the read error.\<close>

record response =
  StatusCode :: int
  RespHeader :: header
  RespBody :: "string + string"

text \<open>
  \<^verbatim>\<open>http.ResponseWriter\<close>, as a recorder of what the handler sends: the header map
  \<^verbatim>\<open>w.Header()\<close> as the handler fills it (the server adds Date, Content-Length and a
  sniffed Content-Type on the wire by itself), the status code once written, the body
  bytes. \<^verbatim>\<open>WriteHeader\<close> counts once; \<^verbatim>\<open>Write\<close> sends status 200 first when none was
  written. Writes to the client do not fail in this model (the handler only logs such
  a failure).
\<close>

record response_writer =
  w_header :: header
  w_status :: "int option"
  w_body :: string

definition new_response_writer :: response_writer where
  "new_response_writer = \<lparr>w_header = [], w_status = None, w_body = []\<rparr>"

definition WriteHeader :: "response_writer \<Rightarrow> int \<Rightarrow> response_writer" where
  "WriteHeader w code = (if w_status w = None then w\<lparr>w_status := Some code\<rparr> else w)"

definition Write :: "response_writer \<Rightarrow> string \<Rightarrow> response_writer" where
  "Write w b = (let w' = WriteHeader w 200 in w'\<lparr>w_body := w_body w' @ b\<rparr>)"

text \<open>\<^verbatim>\<open>http.Error(w, error, code)\<close>: drops Content-Length, sets the two plain-text
  headers, writes the status, then the message and a newline.\<close>

definition http_Error :: "response_writer \<Rightarrow> string \<Rightarrow> int \<Rightarrow> response_writer" where
  "http_Error w msg code =
     (let h1 = Del (w_header w) ''Content-Length'';
          h2 = Set_hdr h1 ''Content-Type'' ''text/plain; charset=utf-8'';
          h3 = Set_hdr h2 ''X-Content-Type-Options'' ''nosniff'';
          w1 = WriteHeader (w\<lparr>w_header := h3\<rparr>) code
      in Write w1 (msg @ [CHR 0x0A]))"

definition StatusOK :: int where "StatusOK = 200"
definition StatusBadRequest :: int where "StatusBadRequest = 400"
definition StatusForbidden :: int where "StatusForbidden = 403"
definition StatusInternalServerError :: int where "StatusInternalServerError = 500"
definition StatusBadGateway :: int where "StatusBadGateway = 502"

subsection \<open>The outbound client (net/http Client)\<close>

text \<open>
  One round trip of the transport answers with a final response, with a redirect (the
  next request of the chain, which the client builds from the Location header) or with
  a transport error: connection failure, or the client's timeout running out.
\<close>

datatype round_trip = Reply response | Redirect request | TransportError string

text \<open>The network: what the transport answers to a request, given the requests of this
  call made before it.\<close>

type_synonym transport = "request list \<Rightarrow> request \<Rightarrow> round_trip"

record client =
  Timeout :: int
  CheckRedirect :: "request \<Rightarrow> request list \<Rightarrow> string option"

text \<open>
  \<^verbatim>\<open>Client.Do\<close>: the client sends the request; when the answer is a redirect it
  calls \<^verbatim>\<open>CheckRedirect\<close> with the upcoming request and the requests made already,
  oldest first, and an error from it ends the call with that error; otherwise it sends
  the upcoming request in turn. Nothing but the policy bounds the loop, so the result
  is an option: \<^verbatim>\<open>None\<close> is a call that follows redirects forever.
\<close>

partial_function (option) do_loop ::
  "client \<Rightarrow> transport \<Rightarrow> request list \<Rightarrow> request \<Rightarrow> (string + response) option"
  where
  "do_loop c send via req =
     (case (if length via > 0 then CheckRedirect c req via else None) of
        Some err \<Rightarrow> Some (Inl err)
      | None \<Rightarrow>
         (case send via req of
            TransportError err \<Rightarrow> Some (Inl err)
          | Reply resp \<Rightarrow> Some (Inr resp)
          | Redirect req' \<Rightarrow> do_loop c send (via @ [req]) req'))"

declare do_loop.simps [code]

definition client_Do :: "client \<Rightarrow> transport \<Rightarrow> request \<Rightarrow> (string + response) option" where
  "client_Do c send req = do_loop c send [] req"

text \<open>\<^verbatim>\<open>http.NewRequest(method, url, body)\<close>: an empty method means GET; the method must
  be a token (the error quotes it); the URL text must parse. The new request has an
  empty header map and the parsed URL's host as \<^verbatim>\<open>Host\<close>. \<^verbatim>\<open>parse\<close> is \<^verbatim>\<open>url.Parse\<close>.\<close>

definition validMethod :: "string \<Rightarrow> bool" where
  "validMethod m = (length m > 0 \<and> list_all validHeaderFieldByte m)"

definition NewRequest ::
  "(string \<Rightarrow> string + url) \<Rightarrow> string \<Rightarrow> string \<Rightarrow> string \<Rightarrow> string + request" where
  "NewRequest parse method urlstr body =
     (let m = (if method = [] then ''GET'' else method)
      in if \<not> validMethod m
         then Inl (''net/http: invalid method '' @ [CHR 0x22] @ m @ [CHR 0x22])
         else case parse urlstr of
                Inl err \<Rightarrow> Inl err
              | Inr u \<Rightarrow> Inr \<lparr>Method = m, URL = u, Header = [], Body = body,
                              Host = UHost u, RemoteAddr = []\<rparr>)"

subsection \<open>The collaborators of the handler\<close>

text \<open>Modelled from the spec: the cache collaborator (package \<^verbatim>\<open>cache\<close> of this
  repository, which handler.go imports), an opaque store from keys to byte blobs.\<close>

type_synonym cache = "string \<rightharpoonup> string"

text \<open>Modelled from the spec: \<^verbatim>\<open>Get(key) -> (value, found)\<close> of the cache collaborator;
  \<^verbatim>\<open>Some v\<close> is found with \<^verbatim>\<open>item.Value = v\<close>. The lookup leaves the store as it is.\<close>

definition cache_Get :: "cache \<Rightarrow> string \<Rightarrow> string option" where
  "cache_Get c key = c key"

text \<open>Modelled from the spec: the configuration (package \<^verbatim>\<open>config\<close> of this repository,
  which handler.go imports): the ordered allow-list of domain suffixes and the timeout
  in seconds.\<close>

record config =
  AllowedDomains :: "string list"
  ProxyTimeout :: int

text \<open>What lies outside the process: the network behind the client's transport, and
  \<^verbatim>\<open>url.Parse\<close>.\<close>

record env =
  transport :: transport
  url_Parse :: "string \<Rightarrow> string + url"

subsection \<open>ProxyHandler and NewProxyHandler\<close>

record handler =
  cache :: cache
  client :: client
  config :: config
  cacheables :: "string \<rightharpoonup> bool"

text \<open>The \<^verbatim>\<open>CheckRedirect\<close> closure of \<^verbatim>\<open>NewProxyHandler\<close>.\<close>

definition checkRedirect :: "request \<Rightarrow> request list \<Rightarrow> string option" where
  "checkRedirect req via =
     (if length via \<ge> 10 then Some ''stopped after 10 redirects'' else None)"

text \<open>\<^verbatim>\<open>Timeout\<close> is a \<^verbatim>\<open>time.Duration\<close>, in nanoseconds; no function of the handler
  reads it back, so its 64-bit range is left out.\<close>

definition NewProxyHandler :: "cache \<Rightarrow> config \<Rightarrow> handler" where
  "NewProxyHandler cache0 cfg =
     \<lparr>cache = cache0,
      client = \<lparr>Timeout = ProxyTimeout cfg * 1000000000, CheckRedirect = checkRedirect\<rparr>,
      config = cfg,
      cacheables = [''GET'' \<mapsto> True, ''HEAD'' \<mapsto> True]\<rparr>"

text \<open>Reading a \<^verbatim>\<open>map[string]bool\<close> at an absent key gives \<^verbatim>\<open>false\<close>.\<close>

definition lookup_bool :: "(string \<rightharpoonup> bool) \<Rightarrow> string \<Rightarrow> bool" where
  "lookup_bool m k = (case m k of None \<Rightarrow> False | Some b \<Rightarrow> b)"

subsection \<open>The helpers of the handler\<close>

fun any_suffix :: "string \<Rightarrow> string list \<Rightarrow> bool" where
  "any_suffix host [] = False"
| "any_suffix host (domain # rest) = (if HasSuffix host domain then True else any_suffix host rest)"

definition isDomainAllowed :: "handler \<Rightarrow> string \<Rightarrow> bool" where
  "isDomainAllowed p host =
     (if length (AllowedDomains (config p)) = 0 then True
      else any_suffix host (AllowedDomains (config p)))"

definition isCacheable :: "handler \<Rightarrow> request \<Rightarrow> bool" where
  "isCacheable p r =
     (if \<not> lookup_bool (cacheables p) (Method r) then False
      else if Get (Header r) ''Authorization'' \<noteq> [] then False
      else \<not> Contains (Get (Header r) ''Cache-Control'') ''no-store'')"

definition isResponseCacheable :: "handler \<Rightarrow> response \<Rightarrow> bool" where
  "isResponseCacheable p resp =
     (if StatusCode resp \<noteq> StatusOK then False
      else if Contains (Get (RespHeader resp) ''Cache-Control'') ''no-store'' then False
      else if Get (RespHeader resp) ''Set-Cookie'' \<noteq> [] then False
      else True)"

definition createCacheKey :: "handler \<Rightarrow> request \<Rightarrow> string" where
  "createCacheKey p r = Method r @ '':'' @ String (URL r)"

text \<open>The two nested \<^verbatim>\<open>range\<close> loops that copy a header map with \<^verbatim>\<open>Add\<close>.\<close>

fun add_values :: "header \<Rightarrow> string \<Rightarrow> string list \<Rightarrow> header" where
  "add_values dst key [] = dst"
| "add_values dst key (v # vs) = add_values (Add dst key v) key vs"

fun copy_header :: "header \<Rightarrow> header \<Rightarrow> header" where
  "copy_header dst [] = dst"
| "copy_header dst ((key, vals) # rest) = copy_header (add_values dst key vals) rest"

definition cloneRequest :: "handler \<Rightarrow> env \<Rightarrow> request \<Rightarrow> string + request" where
  "cloneRequest p env r =
     (case NewRequest (url_Parse env) (Method r) (String (URL r)) (Body r) of
        Inl err \<Rightarrow> Inl err
      | Inr proxyReq \<Rightarrow>
          (let h1 = copy_header [] (Header r);
               h2 = Set_hdr h1 ''X-Forwarded-For'' (RemoteAddr r);
               h3 = Set_hdr h2 ''X-Forwarded-Host'' (Host r);
               h4 = Del h3 ''Connection''
           in Inr (proxyReq\<lparr>Header := h4\<rparr>)))"

definition writeCachedHeaders :: "handler \<Rightarrow> response_writer \<Rightarrow> string \<Rightarrow> response_writer" where
  "writeCachedHeaders p w response = w\<lparr>w_header := Set_hdr (w_header w) ''X-Cache'' ''HIT''\<rparr>"

definition writeCachedBody :: "handler \<Rightarrow> response_writer \<Rightarrow> string \<Rightarrow> response_writer" where
  "writeCachedBody p w response = Write w response"

subsection \<open>ServeHTTP\<close>

text \<open>
  What one call of the handler does to its collaborators, in order: the lines it logs,
  the lookups it makes in the cache, the requests it hands to the client.
\<close>

datatype event =
    LogProxying string string
  | CacheGet string
  | LogCacheHit string
  | LogCacheMiss string
  | ClientDo request
  | LogBodyReadError string
  | LogWouldCache string nat

text \<open>\<^verbatim>\<open>cacheResponse\<close> logs the key and the body's length, and nothing else.\<close>

definition cacheResponse :: "handler \<Rightarrow> string \<Rightarrow> response \<Rightarrow> string \<Rightarrow> event list" where
  "cacheResponse p key resp body = [LogWouldCache key (length body)]"

text \<open>The result of one call: what the client was sent, the events, and the content of
  the cache store after the call.\<close>

record outcome =
  writer :: response_writer
  trace :: "event list"
  store :: cache

text \<open>The handler returns: no statement of handler.go writes to the cache, so the
  store is the one the handler was given.\<close>

definition return :: "handler \<Rightarrow> response_writer \<Rightarrow> event list \<Rightarrow> outcome" where
  "return p w t = \<lparr>writer = w, trace = t, store = cache p\<rparr>"

text \<open>Lines 106 to 137: the origin's response is relayed.\<close>

definition relay :: "handler \<Rightarrow> response_writer \<Rightarrow> request \<Rightarrow> response \<Rightarrow> event list \<Rightarrow> outcome"
  where
  "relay p w r resp t =
     (let w1 = w\<lparr>w_header := copy_header (w_header w) (RespHeader resp)\<rparr>;
          w2 = w1\<lparr>w_header := Set_hdr (w_header w1) ''X-Proxy-Server'' ''Go-Proxy-Server/1.0''\<rparr>;
          w3 = WriteHeader w2 (StatusCode resp)
      in case RespBody resp of
           Inl err \<Rightarrow> return p w3 (t @ [LogBodyReadError err])
         | Inr body \<Rightarrow>
             (let t' = (if isCacheable p r \<and> isResponseCacheable p resp
                        then t @ cacheResponse p (createCacheKey p r) resp body
                        else t)
              in return p (Write w3 body) t'))"

text \<open>Lines 91 to 103: the request is cloned and handed to the client.\<close>

definition forward :: "handler \<Rightarrow> env \<Rightarrow> response_writer \<Rightarrow> request \<Rightarrow> event list \<Rightarrow> outcome option"
  where
  "forward p env w r t =
     (case cloneRequest p env r of
        Inl err \<Rightarrow>
          Some (return p (http_Error w (''Error creating proxy request: '' @ err)
                            StatusInternalServerError) t)
      | Inr proxyReq \<Rightarrow>
          (case client_Do (client p) (transport env) proxyReq of
             None \<Rightarrow> None
           | Some (Inl err) \<Rightarrow>
               Some (return p (http_Error w (''Error forwarding request: '' @ err)
                                 StatusBadGateway) (t @ [ClientDo proxyReq]))
           | Some (Inr resp) \<Rightarrow> Some (relay p w r resp (t @ [ClientDo proxyReq]))))"

definition ServeHTTP :: "handler \<Rightarrow> env \<Rightarrow> response_writer \<Rightarrow> request \<Rightarrow> outcome option" where
  "ServeHTTP p env w r =
     (let t = [LogProxying (Method r) (String (URL r))]
      in if Scheme (URL r) = [] \<or> UHost (URL r) = [] then
           Some (return p (http_Error w
                   ''Invalid proxy request. URL must include scheme and host.''
                   StatusBadRequest) t)
         else if \<not> isDomainAllowed p (UHost (URL r)) then
           Some (return p (http_Error w ''Domain not allowed'' StatusForbidden) t)
         else if isCacheable p r then
           (let cacheKey = createCacheKey p r
            in case cache_Get (cache p) cacheKey of
                 Some response \<Rightarrow>
                   Some (return p
                     (writeCachedBody p (writeCachedHeaders p w response) response)
                     (t @ [CacheGet cacheKey, LogCacheHit cacheKey]))
               | None \<Rightarrow> forward p env w r (t @ [CacheGet cacheKey, LogCacheMiss cacheKey]))
         else forward p env w r t)"

subsection \<open>Notions used by the properties\<close>

text \<open>The requests a call handed to the client, in order.\<close>

fun outbound :: "event list \<Rightarrow> request list" where
  "outbound [] = []"
| "outbound (ClientDo q # es) = q # outbound es"
| "outbound (e # es) = outbound es"

text \<open>The keys a call looked up in the cache, in order.\<close>

fun lookups :: "event list \<Rightarrow> string list" where
  "lookups [] = []"
| "lookups (CacheGet k # es) = k # lookups es"
| "lookups (e # es) = lookups es"



text \<open>The origin answers the first \<^verbatim>\<open>n\<close> requests of the chain that starts at \<^verbatim>\<open>req\<close>
  with redirects (were they all sent).\<close>

fun redirects :: "transport \<Rightarrow> request list \<Rightarrow> request \<Rightarrow> nat \<Rightarrow> bool" where
  "redirects send via req 0 = True"
| "redirects send via req (Suc n) =
     (case send via req of
        Redirect req' \<Rightarrow> redirects send (via @ [req]) req' n
      | Reply resp \<Rightarrow> False
      | TransportError err \<Rightarrow> False)"

text \<open>
  A header map as net/http hands it to a handler and as its documentation asks of
  every \<^verbatim>\<open>Header\<close>: each key once (it is a map), in canonical form, with at least one
  value (a key enters the map with the first header line that carries it).
\<close>

definition wire_header :: "header \<Rightarrow> bool" where
  "wire_header h =
     (distinct (map fst h) \<and>
      list_all (\<lambda>kv. CanonicalMIMEHeaderKey (fst kv) = fst kv \<and> snd kv \<noteq> []) h)"

subsection \<open>Concrete scenarios\<close>

text \<open>\<^verbatim>\<open>GET http://example.com/a\<close> from a client at 192.0.2.7, an origin that answers
  every request with the same 200 response, an empty allow-list, an empty cache.\<close>

definition ex_url :: url where
  "ex_url = \<lparr>Scheme = ''http'', UHost = ''example.com'', String = ''http://example.com/a''\<rparr>"

definition ex_get :: request where
  "ex_get = \<lparr>Method = ''GET'', URL = ex_url,
             Header = [(''Accept'', [''text/plain'', ''*/*'']),
                       (''Connection'', [''keep-alive'']),
                       (''X-Forwarded-For'', [''203.0.113.9''])],
             Body = [], Host = ''example.com'', RemoteAddr = ''192.0.2.7:4711''\<rparr>"

definition ex_resp :: response where
  "ex_resp = \<lparr>StatusCode = 200,
              RespHeader = [(''Content-Language'', [''en'']), (''Content-Type'', [''text/plain''])],
              RespBody = Inr ''hello''\<rparr>"

definition ex_parse :: "string \<Rightarrow> string + url" where
  "ex_parse s = (if s = ''http://example.com/a'' then Inr ex_url else Inl ''parse error'')"

definition ex_env :: env where
  "ex_env = \<lparr>transport = (\<lambda>via req. Reply ex_resp), url_Parse = ex_parse\<rparr>"

definition ex_cfg :: config where
  "ex_cfg = \<lparr>AllowedDomains = [], ProxyTimeout = 30\<rparr>"

definition ex_handler :: handler where
  "ex_handler = NewProxyHandler Map.empty ex_cfg"

text \<open>The request that \<^verbatim>\<open>cloneRequest\<close> builds from \<^verbatim>\<open>ex_get\<close>.\<close>

definition ex_out :: request where
  "ex_out = \<lparr>Method = ''GET'', URL = ex_url,
             Header = [(''Accept'', [''text/plain'', ''*/*'']),
                       (''X-Forwarded-For'', [''192.0.2.7:4711'']),
                       (''X-Forwarded-Host'', [''example.com''])],
             Body = [], Host = ''example.com'', RemoteAddr = []\<rparr>"

text \<open>A request sent to the proxy itself: the target \<^verbatim>\<open>/index.html\<close> has no scheme and
  no host.\<close>

definition ex_direct :: request where
  "ex_direct = \<lparr>Method = ''POST'', URL = \<lparr>Scheme = [], UHost = [], String = ''/index.html''\<rparr>,
      Header = [(''Authorization'', [''Basic dTpw''])], Body = ''x=1'', Host = ''proxy.local'',
      RemoteAddr = ''192.0.2.7:4711''\<rparr>"

text \<open>A request whose method is not a token, so that \<^verbatim>\<open>http.NewRequest\<close> refuses it.\<close>

definition ex_bad_method :: request where
  "ex_bad_method = ex_get\<lparr>Method := ''BAD METHOD''\<rparr>"

text \<open>A request to a host outside the allow-list \<^verbatim>\<open>["example.com"]\<close>.\<close>

definition ex_evil :: request where
  "ex_evil =
     ex_get\<lparr>URL := \<lparr>Scheme = ''http'', UHost = ''evil.com'', String = ''http://evil.com/''\<rparr>\<rparr>"

definition ex_listed :: config where
  "ex_listed = \<lparr>AllowedDomains = [''example.com''], ProxyTimeout = 30\<rparr>"

text \<open>An origin that answers every request with a redirect to the same request, one
  that redirects \<^verbatim>\<open>n\<close> times and then answers, and one that answers 403.\<close>

definition ex_redirecting :: env where
  "ex_redirecting = \<lparr>transport = (\<lambda>via req. Redirect req), url_Parse = ex_parse\<rparr>"

definition ex_hops :: "nat \<Rightarrow> transport" where
  "ex_hops n = (\<lambda>via req. if length via < n then Redirect req else Reply ex_resp)"

definition ex_refusing :: env where
  "ex_refusing = \<lparr>transport = (\<lambda>via req. Reply (ex_resp\<lparr>StatusCode := 403\<rparr>)),
                  url_Parse = ex_parse\<rparr>"

text \<open>Requests and responses whose decisive header line is not the first of its name:
  \<^verbatim>\<open>Cache-Control: max-age=0\<close> then \<^verbatim>\<open>Cache-Control: no-store\<close>; an empty
  \<^verbatim>\<open>Authorization:\<close> line then one with credentials; likewise for the response.\<close>

definition split_no_store_request :: request where
  "split_no_store_request =
     ex_get\<lparr>Header := [(''Cache-Control'', [''max-age=0'', ''no-store''])]\<rparr>"

definition empty_first_authorization_request :: request where
  "empty_first_authorization_request =
     ex_get\<lparr>Header := [(''Authorization'', [[], ''Bearer s3cr3t''])]\<rparr>"

definition split_no_store_response :: response where
  "split_no_store_response =
     ex_resp\<lparr>RespHeader := [(''Cache-Control'', [''public'', ''no-store''])]\<rparr>"

definition empty_first_cookie_response :: response where
  "empty_first_cookie_response = ex_resp\<lparr>RespHeader := [(''Set-Cookie'', [[], ''sid=1''])]\<rparr>"

section \<open>Auxiliary facts\<close>

subsection \<open>Strings\<close>

lemma HasSuffix_iff: "HasSuffix s t \<longleftrightarrow> suffix t s"
proof
  assume "HasSuffix s t"
  then have "s = take (length s - length t) s @ t"
    by (metis HasSuffix_def append_take_drop_id)
  then show "suffix t s" unfolding suffix_def by blast
next
  assume "suffix t s"
  then obtain zs where "s = zs @ t" unfolding suffix_def by blast
  then show "HasSuffix s t" by (simp add: HasSuffix_def)
qed

lemma HasPrefix_iff: "HasPrefix s t \<longleftrightarrow> prefix t s"
proof
  assume "HasPrefix s t"
  then have "s = t @ drop (length t) s"
    by (metis HasPrefix_def append_take_drop_id)
  then show "prefix t s" unfolding prefix_def by blast
next
  assume "prefix t s"
  then obtain zs where "s = t @ zs" unfolding prefix_def by blast
  then show "HasPrefix s t" by (simp add: HasPrefix_def)
qed

text \<open>\<^verbatim>\<open>strings.Contains\<close> decides whether the second string occurs in the first.\<close>

lemma Contains_iff: "Contains s sub \<longleftrightarrow> sublist sub s"
  by (induction s) (auto simp: HasPrefix_iff sublist_Cons_right)

lemma any_suffix_iff: "any_suffix host ds \<longleftrightarrow> (\<exists>d \<in> set ds. suffix d host)"
  by (induction ds) (auto simp: HasSuffix_iff)

subsection \<open>Header maps\<close>

lemmas canon_simps = CanonicalMIMEHeaderKey_def validHeaderFieldByte_def isDigit_def
  isLower_def isUpper_def canonicalByte_def

lemmas eval_defs = validMethod_def canon_simps Set_hdr_def Del_def Add_def Get_def
  HasPrefix_def HasSuffix_def lookup_bool_def

text \<open>The keys that handler.go and \<^verbatim>\<open>http.Error\<close> write as literals are canonical.\<close>

lemma canonical_literals:
  "CanonicalMIMEHeaderKey ''Authorization'' = ''Authorization''"
  "CanonicalMIMEHeaderKey ''Cache-Control'' = ''Cache-Control''"
  "CanonicalMIMEHeaderKey ''Set-Cookie'' = ''Set-Cookie''"
  "CanonicalMIMEHeaderKey ''X-Forwarded-For'' = ''X-Forwarded-For''"
  "CanonicalMIMEHeaderKey ''X-Forwarded-Host'' = ''X-Forwarded-Host''"
  "CanonicalMIMEHeaderKey ''Connection'' = ''Connection''"
  "CanonicalMIMEHeaderKey ''X-Cache'' = ''X-Cache''"
  "CanonicalMIMEHeaderKey ''X-Proxy-Server'' = ''X-Proxy-Server''"
  "CanonicalMIMEHeaderKey ''Content-Length'' = ''Content-Length''"
  "CanonicalMIMEHeaderKey ''Content-Type'' = ''Content-Type''"
  "CanonicalMIMEHeaderKey ''X-Content-Type-Options'' = ''X-Content-Type-Options''"
  by (simp_all add: canon_simps)

lemma map_of_Add:
  "map_of (Add h key v) =
     (map_of h)(CanonicalMIMEHeaderKey key \<mapsto> values_of h (CanonicalMIMEHeaderKey key) @ [v])"
  by (auto simp: Add_def Let_def values_of_def update_conv' map_add_def fun_eq_iff
      split: option.splits)

lemma map_of_add_values:
  assumes "CanonicalMIMEHeaderKey k = k"
  shows "map_of (add_values dst k vs) =
     (if vs = [] then map_of dst else (map_of dst)(k \<mapsto> values_of dst k @ vs))"
  using assms
proof (induction vs arbitrary: dst)
  case Nil
  then show ?case by simp
next
  case (Cons v vs)
  then show ?case by (auto simp: map_of_Add values_of_def fun_eq_iff)
qed

text \<open>Copying a well-formed header map appends, key by key, the copied values to those
  the destination holds already.\<close>

lemma map_of_copy_header:
  assumes "wire_header h"
  shows "map_of (copy_header dst h) k =
     (case map_of h k of None \<Rightarrow> map_of dst k | Some vs \<Rightarrow> Some (values_of dst k @ vs))"
  using assms
proof (induction h arbitrary: dst)
  case Nil
  then show ?case by simp
next
  case (Cons kv h)
  obtain key vals where kv: "kv = (key, vals)" by (cases kv)
  from Cons.prems kv have canon: "CanonicalMIMEHeaderKey key = key" and ne: "vals \<noteq> []"
    and fresh: "map_of h key = None" and rest: "wire_header h"
    by (auto simp: wire_header_def map_of_eq_None_iff)
  show ?case
  proof (cases "key = k")
    case True
    have "map_of (add_values dst key vals) key = Some (values_of dst key @ vals)"
      using ne by (simp add: map_of_add_values [OF canon])
    with fresh True show ?thesis
      by (simp add: kv Cons.IH [OF rest])
  next
    case False
    then show ?thesis
      by (simp add: kv Cons.IH [OF rest] map_of_add_values [OF canon] values_of_def
          split: option.splits)
  qed
qed

lemma distinct_Add: "distinct (map fst h) \<Longrightarrow> distinct (map fst (Add h key v))"
  by (auto simp: Add_def Let_def distinct_update map_of_eq_None_iff split: option.splits)

lemma distinct_add_values: "distinct (map fst dst) \<Longrightarrow> distinct (map fst (add_values dst k vs))"
  by (induction vs arbitrary: dst) (simp_all add: distinct_Add)

lemma distinct_copy_header: "distinct (map fst dst) \<Longrightarrow> distinct (map fst (copy_header dst h))"
  by (induction h arbitrary: dst) (auto simp: distinct_add_values)

subsection \<open>The response writer\<close>

lemma http_Error_new:
  "http_Error new_response_writer msg code =
     \<lparr>w_header = [(''Content-Type'', [''text/plain; charset=utf-8'']),
                  (''X-Content-Type-Options'', [''nosniff''])],
      w_status = Some code, w_body = msg @ [CHR 0x0A]\<rparr>"
  by (simp add: http_Error_def new_response_writer_def Del_def Set_hdr_def canonical_literals
      WriteHeader_def Write_def Let_def)

lemma cache_hit_writer:
  "writeCachedBody p (writeCachedHeaders p new_response_writer e) e =
     \<lparr>w_header = [(''X-Cache'', [''HIT''])], w_status = Some 200, w_body = e\<rparr>"
  by (simp add: writeCachedBody_def writeCachedHeaders_def new_response_writer_def
      Write_def WriteHeader_def Set_hdr_def canonical_literals)

subsection \<open>The client and its redirect policy\<close>

lemma client_Do_Reply: "send [] q = Reply resp \<Longrightarrow> client_Do c send q = Some (Inr resp)"
  unfolding client_Do_def by (subst do_loop.simps) simp

lemma client_Do_TransportError:
  "send [] q = TransportError err \<Longrightarrow> client_Do c send q = Some (Inl err)"
  unfolding client_Do_def by (subst do_loop.simps) simp

text \<open>Under the handler's policy the loop goes on while fewer than ten requests were
  made, and ends with the policy's error at the tenth redirect.\<close>

lemma do_loop_step:
  assumes "via = [] \<or> length via < 10"
  shows "do_loop \<lparr>Timeout = t, CheckRedirect = checkRedirect\<rparr> send via req =
     (case send via req of
        TransportError err \<Rightarrow> Some (Inl err)
      | Reply resp \<Rightarrow> Some (Inr resp)
      | Redirect req' \<Rightarrow>
          do_loop \<lparr>Timeout = t, CheckRedirect = checkRedirect\<rparr> send (via @ [req]) req')"
  using assms by (subst do_loop.simps) (auto simp: checkRedirect_def)

lemma do_loop_stop:
  assumes "length via \<ge> 10"
  shows "do_loop \<lparr>Timeout = t, CheckRedirect = checkRedirect\<rparr> send via req =
     Some (Inl ''stopped after 10 redirects'')"
  using assms by (subst do_loop.simps) (auto simp: checkRedirect_def)

text \<open>The call returns whatever the network does: the policy bounds the loop.\<close>

lemma do_loop_returns:
  assumes "length via + n = 10"
  shows "\<exists>res. do_loop \<lparr>Timeout = t, CheckRedirect = checkRedirect\<rparr> send via req = Some res"
  using assms
proof (induction n arbitrary: via req)
  case 0
  then show ?case by (simp add: do_loop_stop)
next
  case (Suc n)
  then have lt: "length via < 10" by simp
  show ?case
  proof (cases "send via req")
    case (Reply resp)
    with lt show ?thesis by (simp add: do_loop_step)
  next
    case (Redirect req')
    have "\<exists>res. do_loop \<lparr>Timeout = t, CheckRedirect = checkRedirect\<rparr> send (via @ [req]) req'
        = Some res"
      using Suc.prems by (intro Suc.IH) auto
    with Redirect lt show ?thesis by (simp add: do_loop_step)
  next
    case (TransportError err)
    with lt show ?thesis by (simp add: do_loop_step)
  qed
qed

lemma client_Do_returns:
  "\<exists>res. client_Do (client (NewProxyHandler c cfg)) send req = Some res"
  unfolding client_Do_def NewProxyHandler_def
  using do_loop_returns [of "[]" 10] by simp

lemma redirects_refused:
  assumes "redirects send via req n" "length via + n \<ge> 10"
  shows "do_loop \<lparr>Timeout = t, CheckRedirect = checkRedirect\<rparr> send via req =
           Some (Inl ''stopped after 10 redirects'')"
  using assms
proof (induction n arbitrary: via req)
  case 0
  then show ?case by (simp add: do_loop_stop)
next
  case (Suc n)
  show ?case
  proof (cases "length via \<ge> 10")
    case True
    then show ?thesis by (simp add: do_loop_stop)
  next
    case False
    from Suc.prems(1) obtain req' where
      step: "send via req = Redirect req'" and rest: "redirects send (via @ [req]) req' n"
      by (auto split: round_trip.splits)
    have "do_loop \<lparr>Timeout = t, CheckRedirect = checkRedirect\<rparr> send (via @ [req]) req' =
           Some (Inl ''stopped after 10 redirects'')"
      using rest Suc.prems(2) by (intro Suc.IH) auto
    with step False show ?thesis by (simp add: do_loop_step)
  qed
qed

text \<open>Where the cap lies: nine redirects are followed, the tenth is refused.\<close>

lemma hops_followed:
  assumes "n < 10" "length via + m = n"
  shows "do_loop \<lparr>Timeout = t, CheckRedirect = checkRedirect\<rparr> (ex_hops n) via req =
           Some (Inr ex_resp)"
  using assms
proof (induction m arbitrary: via req)
  case 0
  then show ?case by (simp add: do_loop_step ex_hops_def)
next
  case (Suc m)
  have "do_loop \<lparr>Timeout = t, CheckRedirect = checkRedirect\<rparr> (ex_hops n) (via @ [req]) req =
           Some (Inr ex_resp)"
    using Suc.prems by (intro Suc.IH) auto
  with Suc.prems show ?case by (simp add: do_loop_step ex_hops_def)
qed

lemma nine_redirects_followed:
  "client_Do (client (NewProxyHandler c cfg)) (ex_hops 9) q = Some (Inr ex_resp)"
  unfolding client_Do_def NewProxyHandler_def
  using hops_followed [of 9 "[]" 9] by simp

lemma redirects_ex_hops: "length via + m \<le> n \<Longrightarrow> redirects (ex_hops n) via req m"
  by (induction m arbitrary: via req) (auto simp: ex_hops_def)

lemma tenth_redirect_refused:
  "client_Do (client (NewProxyHandler c cfg)) (ex_hops 10) q =
     Some (Inl ''stopped after 10 redirects'')"
  unfolding client_Do_def NewProxyHandler_def
  using redirects_refused [OF redirects_ex_hops [of "[]" 10 10 q]] by simp

subsection \<open>The paths through ServeHTTP\<close>


lemma lookups_append: "lookups (es @ fs) = lookups es @ lookups fs"
  by (induction es rule: lookups.induct) simp_all

lemma ServeHTTP_invalid:
  assumes "Scheme (URL r) = [] \<or> UHost (URL r) = []"
  shows "ServeHTTP p env new_response_writer r =
     Some \<lparr>writer = \<lparr>w_header = [(''Content-Type'', [''text/plain; charset=utf-8'']),
                                 (''X-Content-Type-Options'', [''nosniff''])],
                      w_status = Some 400,
                      w_body = ''Invalid proxy request. URL must include scheme and host.''
                                 @ [CHR 0x0A]\<rparr>,
           trace = [LogProxying (Method r) (String (URL r))], store = cache p\<rparr>"
  using assms by (auto simp: ServeHTTP_def return_def http_Error_new StatusBadRequest_def)

lemma ServeHTTP_forbidden:
  assumes "Scheme (URL r) \<noteq> []" "UHost (URL r) \<noteq> []" "\<not> isDomainAllowed p (UHost (URL r))"
  shows "ServeHTTP p env new_response_writer r =
     Some \<lparr>writer = \<lparr>w_header = [(''Content-Type'', [''text/plain; charset=utf-8'']),
                                 (''X-Content-Type-Options'', [''nosniff''])],
                      w_status = Some 403, w_body = ''Domain not allowed'' @ [CHR 0x0A]\<rparr>,
           trace = [LogProxying (Method r) (String (URL r))], store = cache p\<rparr>"
  using assms by (simp add: ServeHTTP_def return_def http_Error_new StatusForbidden_def)

lemma ServeHTTP_cache_hit:
  assumes "Scheme (URL r) \<noteq> []" "UHost (URL r) \<noteq> []" "isDomainAllowed p (UHost (URL r))"
    and "isCacheable p r" "cache_Get (cache p) (createCacheKey p r) = Some entry"
  shows "ServeHTTP p env new_response_writer r =
           Some \<lparr>writer = \<lparr>w_header = [(''X-Cache'', [''HIT''])], w_status = Some 200,
                            w_body = entry\<rparr>,
                 trace = [LogProxying (Method r) (String (URL r)),
                          CacheGet (createCacheKey p r), LogCacheHit (createCacheKey p r)],
                 store = cache p\<rparr>"
  using assms by (simp add: ServeHTTP_def cache_hit_writer return_def Let_def)

lemma ServeHTTP_cache_miss:
  assumes "Scheme (URL r) \<noteq> []" "UHost (URL r) \<noteq> []" "isDomainAllowed p (UHost (URL r))"
    and "isCacheable p r" "cache_Get (cache p) (createCacheKey p r) = None"
  shows "ServeHTTP p env w r =
           forward p env w r [LogProxying (Method r) (String (URL r)),
                          CacheGet (createCacheKey p r), LogCacheMiss (createCacheKey p r)]"
  using assms by (simp add: ServeHTTP_def Let_def)

lemma ServeHTTP_not_cacheable:
  assumes "Scheme (URL r) \<noteq> []" "UHost (URL r) \<noteq> []" "isDomainAllowed p (UHost (URL r))"
    and "\<not> isCacheable p r"
  shows "ServeHTTP p env w r = forward p env w r [LogProxying (Method r) (String (URL r))]"
  using assms by (simp add: ServeHTTP_def Let_def)

text \<open>A request that gets past the checks and the cache is forwarded; no request went
  out before.\<close>

lemma ServeHTTP_forward:
  assumes "Scheme (URL r) \<noteq> []" "UHost (URL r) \<noteq> []" "isDomainAllowed p (UHost (URL r))"
    and "\<not> isCacheable p r \<or> cache_Get (cache p) (createCacheKey p r) = None"
  shows "\<exists>t. ServeHTTP p env w r = forward p env w r t \<and> outbound t = [] \<and>
             lookups t = (if isCacheable p r then [createCacheKey p r] else [])"
  using assms
  by (cases "isCacheable p r") (auto simp: ServeHTTP_cache_miss ServeHTTP_not_cacheable)

lemma forward_clone_error:
  assumes "cloneRequest p env r = Inl err"
  shows "forward p env new_response_writer r t =
     Some \<lparr>writer = \<lparr>w_header = [(''Content-Type'', [''text/plain; charset=utf-8'']),
                                 (''X-Content-Type-Options'', [''nosniff''])],
                      w_status = Some 500,
                      w_body = ''Error creating proxy request: '' @ err @ [CHR 0x0A]\<rparr>,
           trace = t, store = cache p\<rparr>"
  using assms by (simp add: forward_def return_def http_Error_new StatusInternalServerError_def)


lemma forward_reply:
  assumes "cloneRequest p env r = Inr q" "client_Do (client p) (transport env) q = Some (Inr resp)"
  shows "forward p env w r t = Some (relay p w r resp (t @ [ClientDo q]))"
  using assms by (simp add: forward_def)

lemma relay_status:
  "w_status (writer (relay p new_response_writer r resp t)) = Some (StatusCode resp)"
  by (simp add: relay_def return_def WriteHeader_def Write_def new_response_writer_def Let_def
      split: sum.splits)

lemma relay_store: "store (relay p w r resp t) = cache p"
  by (simp add: relay_def return_def Let_def split: sum.splits)


text \<open>No call of the handler changes the cache store.\<close>

lemma ServeHTTP_store: "ServeHTTP p env w r = Some out \<Longrightarrow> store out = cache p"
  by (auto simp: ServeHTTP_def forward_def return_def relay_store Let_def
      split: if_splits option.splits sum.splits)

text \<open>A handler built by \<^verbatim>\<open>NewProxyHandler\<close> answers every request.\<close>

lemma ServeHTTP_returns:
  "\<exists>out. ServeHTTP (NewProxyHandler c cfg) env w r = Some out"
proof -
  have "\<exists>out. forward (NewProxyHandler c cfg) env w r t = Some out" for t
  proof (cases "cloneRequest (NewProxyHandler c cfg) env r")
    case (Inl err)
    then show ?thesis by (simp add: forward_def)
  next
    case (Inr q)
    obtain res where
      "client_Do (client (NewProxyHandler c cfg)) (transport env) q = Some res"
      using client_Do_returns by blast
    with Inr show ?thesis by (cases res) (simp_all add: forward_def)
  qed
  then show ?thesis
    by (simp add: ServeHTTP_def Let_def split: option.splits)
qed

lemma forward_status_403:
  assumes "forward p env new_response_writer r t = Some out" "w_status (writer out) = Some 403"
  shows "\<exists>q resp. cloneRequest p env r = Inr q \<and>
            client_Do (client p) (transport env) q = Some (Inr resp) \<and> StatusCode resp = 403"
  using assms
  by (auto simp: forward_def return_def http_Error_new relay_status
      StatusInternalServerError_def StatusBadGateway_def split: sum.splits option.splits)

text \<open>With an empty allow-list a 403 that reaches the client is the origin's status,
  relayed.\<close>

lemma relayed_403:
  assumes "AllowedDomains (config p) = []"
    "ServeHTTP p env new_response_writer r = Some out" "w_status (writer out) = Some 403"
  shows "\<exists>q resp. cloneRequest p env r = Inr q \<and>
            client_Do (client p) (transport env) q = Some (Inr resp) \<and> StatusCode resp = 403"
proof -
  have allowed: "isDomainAllowed p (UHost (URL r))"
    using assms(1) by (simp add: isDomainAllowed_def)
  from assms(2,3) allowed obtain t where "forward p env new_response_writer r t = Some out"
    by (auto simp: ServeHTTP_def cache_hit_writer http_Error_new return_def
        StatusBadRequest_def Let_def split: if_splits option.splits)
  then show ?thesis using assms(3) by (rule forward_status_403)
qed

lemma isDomainAllowed_iff:
  "isDomainAllowed p host \<longleftrightarrow>
     AllowedDomains (config p) = [] \<or> (\<exists>d \<in> set (AllowedDomains (config p)). suffix d host)"
  by (simp add: isDomainAllowed_def any_suffix_iff)

subsection \<open>The scenarios, evaluated\<close>

lemmas ex_defs = ex_url_def ex_get_def ex_resp_def ex_parse_def ex_env_def ex_cfg_def
  ex_out_def ex_handler_def ex_direct_def ex_bad_method_def ex_evil_def ex_listed_def
  ex_redirecting_def ex_refusing_def

lemma ex_valid: "Scheme (URL ex_get) \<noteq> []" "UHost (URL ex_get) \<noteq> []"
  by (simp_all add: ex_defs)

lemma ex_allowed: "isDomainAllowed (NewProxyHandler c ex_cfg) host"
  by (simp add: isDomainAllowed_def ex_defs NewProxyHandler_def)

lemma ex_isCacheable: "isCacheable (NewProxyHandler c cfg) ex_get"
  by (simp add: isCacheable_def NewProxyHandler_def ex_defs eval_defs)


lemma ex_key: "createCacheKey p ex_get = ''GET:http://example.com/a''"
  by (simp add: createCacheKey_def ex_defs)

lemma ex_clone: "url_Parse env = ex_parse \<Longrightarrow> cloneRequest p env ex_get = Inr ex_out"
  by (simp add: cloneRequest_def NewRequest_def ex_defs eval_defs Let_def)



lemma ex_miss: "cache_Get (cache ex_handler) (createCacheKey ex_handler ex_get) = None"
  by (simp add: cache_Get_def ex_handler_def NewProxyHandler_def)


lemma ex_refusing_403:
  "\<exists>out. ServeHTTP ex_handler ex_refusing new_response_writer ex_get = Some out \<and>
         w_status (writer out) = Some 403"
proof -
  have allowed: "isDomainAllowed ex_handler (UHost (URL ex_get))"
    unfolding ex_handler_def by (rule ex_allowed)
  have cacheable: "isCacheable ex_handler ex_get"
    unfolding ex_handler_def by (rule ex_isCacheable)
  have clone: "cloneRequest ex_handler ex_refusing ex_get = Inr ex_out"
    by (rule ex_clone) (simp add: ex_refusing_def)
  have answer: "client_Do (client ex_handler) (transport ex_refusing) ex_out =
      Some (Inr (ex_resp\<lparr>StatusCode := 403\<rparr>))"
    by (rule client_Do_Reply) (simp add: ex_refusing_def)
  show ?thesis
    by (simp add: ServeHTTP_cache_miss [OF ex_valid allowed cacheable ex_miss]
        forward_reply [OF clone answer] relay_status)
qed

lemma ex_bad_method_clone:
  "cloneRequest p ex_env ex_bad_method = Inl (''net/http: invalid method '' @ [CHR 0x22] @ ''BAD METHOD'' @ [CHR 0x22])"
  by (simp add: cloneRequest_def NewRequest_def ex_defs eval_defs Let_def)

section \<open>The properties of the handler\<close>

subsection \<open>The cache write path\<close>




subsection \<open>The cache read path\<close>

text \<open>
  Claim C2 says that on a cache hit the handler deserializes the stored entry into
  response headers and body, adds the marker \<^verbatim>\<open>X-Cache: HIT\<close> and returns without
  invoking the forwarder. \<^verbatim>\<open>writeCachedHeaders\<close> and \<^verbatim>\<open>writeCachedBody\<close> are placeholders:
  no header comes out of the entry. Take the origin response of the scenario
  (\<^verbatim>\<open>Content-Language: en\<close>, body \<^verbatim>\<open>hello\<close>): whatever bytes the cache holds under
  the request's key, the handler does not answer with that header and that body.
\<close>

theorem cache_hit_not_deserialized:
  "\<not> (\<exists>entry out.
        ServeHTTP (NewProxyHandler [''GET:http://example.com/a'' \<mapsto> entry] ex_cfg) ex_env
          new_response_writer ex_get = Some out
        \<and> map_of (w_header (writer out)) ''Content-Language'' = Some [''en'']
        \<and> w_body (writer out) = ''hello'')"
proof
  assume "\<exists>entry out.
        ServeHTTP (NewProxyHandler [''GET:http://example.com/a'' \<mapsto> entry] ex_cfg) ex_env
          new_response_writer ex_get = Some out
        \<and> map_of (w_header (writer out)) ''Content-Language'' = Some [''en'']
        \<and> w_body (writer out) = ''hello''"
  then obtain entry out where
    out: "ServeHTTP (NewProxyHandler [''GET:http://example.com/a'' \<mapsto> entry] ex_cfg) ex_env
          new_response_writer ex_get = Some out"
    and ct: "map_of (w_header (writer out)) ''Content-Language'' = Some [''en'']"
    by blast
  let ?p = "NewProxyHandler [''GET:http://example.com/a'' \<mapsto> entry] ex_cfg"
  have hit: "cache_Get (cache ?p) (createCacheKey ?p ex_get) = Some entry"
    by (simp add: ex_key cache_Get_def NewProxyHandler_def)
  have "w_header (writer out) = [(''X-Cache'', [''HIT''])]"
    using out by (auto simp: ServeHTTP_cache_hit [OF ex_valid ex_allowed ex_isCacheable hit])
  with ct show False by simp
qed

text \<open>
  Claim C2, amended: for every request that passed validation and the domain check, with
  \<^verbatim>\<open>isCacheable(req)\<close> true, for which the cache's Get on \<^verbatim>\<open>createCacheKey(req)\<close> reports
  found, the handler sets \<^verbatim>\<open>X-Cache: HIT\<close> and no other response header, writes the
  stored entry as it is as the body (status 200) and returns it to the client without
  invoking the forwarder.
\<close>

theorem cache_hit_served_verbatim:
  assumes "Scheme (URL r) \<noteq> []" "UHost (URL r) \<noteq> []" "isDomainAllowed p (UHost (URL r))"
    and "isCacheable p r" "cache_Get (cache p) (createCacheKey p r) = Some entry"
  shows "ServeHTTP p env new_response_writer r =
           Some \<lparr>writer = \<lparr>w_header = [(''X-Cache'', [''HIT''])], w_status = Some 200,
                            w_body = entry\<rparr>,
                 trace = [LogProxying (Method r) (String (URL r)),
                          CacheGet (createCacheKey p r), LogCacheHit (createCacheKey p r)],
                 store = cache p\<rparr>
         \<and> map_option (outbound \<circ> trace) (ServeHTTP p env new_response_writer r) = Some []"
  using ServeHTTP_cache_hit [OF assms] by simp

theorem cache_hit_served_verbatim_witness:
  "isCacheable (NewProxyHandler [''GET:http://example.com/a'' \<mapsto> ''stored bytes''] ex_cfg) ex_get \<and>
   ServeHTTP (NewProxyHandler [''GET:http://example.com/a'' \<mapsto> ''stored bytes''] ex_cfg)
       ex_redirecting new_response_writer ex_get =
     Some \<lparr>writer = \<lparr>w_header = [(''X-Cache'', [''HIT''])], w_status = Some 200,
                      w_body = ''stored bytes''\<rparr>,
           trace = [LogProxying ''GET'' ''http://example.com/a'',
                    CacheGet ''GET:http://example.com/a'',
                    LogCacheHit ''GET:http://example.com/a''],
           store = [''GET:http://example.com/a'' \<mapsto> ''stored bytes'']\<rparr>"
proof -
  let ?p = "NewProxyHandler [''GET:http://example.com/a'' \<mapsto> ''stored bytes''] ex_cfg"
  have hit: "cache_Get (cache ?p) (createCacheKey ?p ex_get) = Some ''stored bytes''"
    by (simp add: ex_key cache_Get_def NewProxyHandler_def)
  from cache_hit_served_verbatim [OF ex_valid ex_allowed ex_isCacheable hit, of ex_redirecting]
  show ?thesis
    by (simp add: ex_isCacheable ex_key) (simp add: ex_defs NewProxyHandler_def)
qed

subsection \<open>The domain check\<close>

text \<open>
  Claim C3: \<^verbatim>\<open>isDomainAllowed(host)\<close> is true for every host when the allow-list is empty,
  and the handler then never answers 403 of its own: a 403 that the client sees is
  the status of an origin response that was relayed. With a non-empty allow-list it is
  true exactly when the host ends with one of the configured suffixes, byte for byte;
  a request that reaches the check (its URL has a scheme and a host) and fails it is
  answered with 403. With the allow-list \<^verbatim>\<open>["example.com"]\<close>, \<^verbatim>\<open>api.example.com\<close> passes,
  \<^verbatim>\<open>evil.com\<close> is rejected, and so is \<^verbatim>\<open>api.EXAMPLE.com\<close>.
\<close>

theorem domain_check:
  "(AllowedDomains (config p) = [] \<longrightarrow> isDomainAllowed p host)
   \<and> (AllowedDomains (config p) = [] \<and> ServeHTTP p env new_response_writer r = Some out
        \<and> w_status (writer out) = Some 403
      \<longrightarrow> (\<exists>q resp. cloneRequest p env r = Inr q \<and>
            client_Do (client p) (transport env) q = Some (Inr resp) \<and> StatusCode resp = 403))
   \<and> (AllowedDomains (config p) \<noteq> [] \<longrightarrow>
        isDomainAllowed p host = (\<exists>d \<in> set (AllowedDomains (config p)). suffix d host))
   \<and> (Scheme (URL r) \<noteq> [] \<and> UHost (URL r) \<noteq> [] \<and> \<not> isDomainAllowed p (UHost (URL r)) \<longrightarrow>
        map_option (w_status \<circ> writer) (ServeHTTP p env new_response_writer r) = Some (Some 403))
   \<and> isDomainAllowed (NewProxyHandler c \<lparr>AllowedDomains = [''example.com''], ProxyTimeout = t\<rparr>)
        ''api.example.com''
   \<and> \<not> isDomainAllowed (NewProxyHandler c \<lparr>AllowedDomains = [''example.com''], ProxyTimeout = t\<rparr>)
        ''evil.com''
   \<and> \<not> isDomainAllowed (NewProxyHandler c \<lparr>AllowedDomains = [''example.com''], ProxyTimeout = t\<rparr>)
        ''api.EXAMPLE.com''"
proof (intro conjI impI)
  show "isDomainAllowed p host" if "AllowedDomains (config p) = []"
    using that by (simp add: isDomainAllowed_def)
  show "\<exists>q resp. cloneRequest p env r = Inr q \<and>
            client_Do (client p) (transport env) q = Some (Inr resp) \<and> StatusCode resp = 403"
    if "AllowedDomains (config p) = [] \<and> ServeHTTP p env new_response_writer r = Some out
        \<and> w_status (writer out) = Some 403"
    using that relayed_403 by blast
  show "isDomainAllowed p host = (\<exists>d \<in> set (AllowedDomains (config p)). suffix d host)"
    if "AllowedDomains (config p) \<noteq> []"
    using that by (simp add: isDomainAllowed_iff)
  show "map_option (w_status \<circ> writer) (ServeHTTP p env new_response_writer r) = Some (Some 403)"
    if "Scheme (URL r) \<noteq> [] \<and> UHost (URL r) \<noteq> [] \<and> \<not> isDomainAllowed p (UHost (URL r))"
    using that by (simp add: ServeHTTP_forbidden)
qed (simp_all add: isDomainAllowed_def NewProxyHandler_def HasSuffix_def)

theorem domain_check_witness:
  "AllowedDomains (config ex_handler) = [] \<and> isDomainAllowed ex_handler ''evil.com'' \<and>
   map_option (w_status \<circ> writer) (ServeHTTP ex_handler ex_refusing new_response_writer ex_get)
     = Some (Some 403) \<and>
   (\<exists>q resp. cloneRequest ex_handler ex_refusing ex_get = Inr q \<and>
      client_Do (client ex_handler) (transport ex_refusing) q = Some (Inr resp) \<and>
      StatusCode resp = 403) \<and>
   AllowedDomains (config (NewProxyHandler Map.empty ex_listed)) \<noteq> [] \<and>
   isDomainAllowed (NewProxyHandler Map.empty ex_listed) ''api.example.com'' \<and>
   suffix ''example.com'' ''api.example.com'' \<and>
   \<not> isDomainAllowed (NewProxyHandler Map.empty ex_listed) (UHost (URL ex_evil)) \<and>
   map_option (w_status \<circ> writer)
     (ServeHTTP (NewProxyHandler Map.empty ex_listed) ex_env new_response_writer ex_evil)
     = Some (Some 403)"
proof -
  let ?q = "NewProxyHandler Map.empty ex_listed"
  have open_list: "AllowedDomains (config ex_handler) = []"
    by (simp add: ex_defs NewProxyHandler_def)
  obtain out where out: "ServeHTTP ex_handler ex_refusing new_response_writer ex_get = Some out"
    "w_status (writer out) = Some 403"
    using ex_refusing_403 by blast
  note a = domain_check [of ex_handler "''evil.com''" ex_refusing ex_get out]
  have listed: "AllowedDomains (config ?q) = [''example.com'']"
    by (simp add: ex_defs NewProxyHandler_def)
  note b = domain_check [of ?q "''api.example.com''" ex_env ex_evil]
  have sfx: "suffix ''example.com'' ''api.example.com''"
    by (simp add: suffix_def)
  have evil: "UHost (URL ex_evil) = ''evil.com''" "Scheme (URL ex_evil) = ''http''"
    by (simp_all add: ex_defs)
  have no: "\<not> isDomainAllowed ?q ''evil.com''"
    using b by (simp add: ex_listed_def)
  from a open_list out have 1: "isDomainAllowed ex_handler ''evil.com''"
    and 2: "\<exists>q resp. cloneRequest ex_handler ex_refusing ex_get = Inr q \<and>
      client_Do (client ex_handler) (transport ex_refusing) q = Some (Inr resp) \<and>
      StatusCode resp = 403"
    by blast+
  from b listed sfx have 3: "isDomainAllowed ?q ''api.example.com''"
    by simp
  from b no evil have 4: "map_option (w_status \<circ> writer)
     (ServeHTTP ?q ex_env new_response_writer ex_evil) = Some (Some 403)"
    by simp
  from open_list 1 2 3 4 out listed sfx no evil show ?thesis by simp
qed

subsection \<open>Request cacheability\<close>

text \<open>What \<^verbatim>\<open>isCacheable\<close> computes: only the first value under a header name is read, and
  an empty first value counts as no header.\<close>

lemma isCacheable_iff:
  "isCacheable (NewProxyHandler c cfg) r \<longleftrightarrow>
     (Method r = ''GET'' \<or> Method r = ''HEAD'') \<and>
     Get (Header r) ''Authorization'' = [] \<and>
     \<not> sublist ''no-store'' (Get (Header r) ''Cache-Control'')"
  by (auto simp: isCacheable_def NewProxyHandler_def lookup_bool_def Contains_iff)

lemma isCacheable_POST: "Method r = ''POST'' \<Longrightarrow> \<not> isCacheable (NewProxyHandler c cfg) r"
  by (simp add: isCacheable_iff)

lemma isCacheable_bare_GET:
  assumes "Method r = ''GET''" "map_of (Header r) ''Authorization'' = None"
    "map_of (Header r) ''Cache-Control'' = None"
  shows "isCacheable (NewProxyHandler c cfg) r"
  using assms by (simp add: isCacheable_iff Get_def canonical_literals)

text \<open>
  Claim C4 says that \<^verbatim>\<open>isCacheable(req)\<close> holds exactly when the method is GET or HEAD, no
  Authorization header is present and the Cache-Control request header does not
  contain \<^verbatim>\<open>no-store\<close>; the comments of the function say the same. The function reads
  each header with \<^verbatim>\<open>Header.Get\<close>, which returns the first value only: a GET request
  with the header lines \<^verbatim>\<open>Cache-Control: max-age=0\<close> and \<^verbatim>\<open>Cache-Control: no-store\<close>, and
  one with an empty \<^verbatim>\<open>Authorization:\<close> line followed by one that carries credentials,
  are both found cacheable.
\<close>

theorem isCacheable_reads_first_value_only:
  "values_of (Header split_no_store_request) ''Cache-Control'' = [''max-age=0'', ''no-store'']
   \<and> isCacheable (NewProxyHandler c cfg) split_no_store_request
   \<and> values_of (Header empty_first_authorization_request) ''Authorization''
       = [[], ''Bearer s3cr3t'']
   \<and> isCacheable (NewProxyHandler c cfg) empty_first_authorization_request"
  by (simp add: isCacheable_def NewProxyHandler_def split_no_store_request_def
      empty_first_authorization_request_def values_of_def ex_defs eval_defs)

subsection \<open>The redirect cap and transport failures\<close>



subsection \<open>Requests that are not in proxy form\<close>

text \<open>
  Claim C6: a request whose target URL lacks a scheme or a host is answered with status
  400 whatever its method and headers; the call makes no cache lookup and no outbound
  call, and its answer and its events are the same for every handler (allow-list,
  cache, client) and every environment, so no domain check bears on it.
\<close>

theorem invalid_target_bad_request:
  assumes "Scheme (URL r) = [] \<or> UHost (URL r) = []"
  shows "\<exists>out. ServeHTTP p env new_response_writer r = Some out \<and>
           w_status (writer out) = Some 400 \<and>
           lookups (trace out) = [] \<and> outbound (trace out) = [] \<and>
           trace out = [LogProxying (Method r) (String (URL r))] \<and>
           writer out = http_Error new_response_writer
              ''Invalid proxy request. URL must include scheme and host.'' 400 \<and>
           map_option writer (ServeHTTP p' env' new_response_writer r) = Some (writer out) \<and>
           map_option trace (ServeHTTP p' env' new_response_writer r) = Some (trace out)"
  using assms by (simp add: ServeHTTP_invalid http_Error_new)

theorem invalid_target_bad_request_witness:
  "Scheme (URL ex_direct) = [] \<and>
   (\<exists>out. ServeHTTP (NewProxyHandler Map.empty ex_listed) ex_env new_response_writer ex_direct
            = Some out \<and>
      w_status (writer out) = Some 400 \<and> lookups (trace out) = [] \<and>
      outbound (trace out) = [] \<and>
      map_option writer (ServeHTTP ex_handler ex_redirecting new_response_writer ex_direct)
        = Some (writer out))"
proof -
  have no_scheme: "Scheme (URL ex_direct) = []"
    by (simp add: ex_direct_def)
  from invalid_target_bad_request [OF disjI1 [OF no_scheme],
      of "NewProxyHandler Map.empty ex_listed" ex_env ex_handler ex_redirecting]
  show ?thesis using no_scheme by blast
qed

subsection \<open>Response cacheability\<close>

text \<open>What \<^verbatim>\<open>isResponseCacheable\<close> computes, again from the first value under each name.\<close>

lemma isResponseCacheable_iff:
  "isResponseCacheable p resp \<longleftrightarrow>
     StatusCode resp = 200 \<and>
     \<not> sublist ''no-store'' (Get (RespHeader resp) ''Cache-Control'') \<and>
     Get (RespHeader resp) ''Set-Cookie'' = []"
  by (auto simp: isResponseCacheable_def StatusOK_def Contains_iff)

lemma isResponseCacheable_not_200: "StatusCode resp \<noteq> 200 \<Longrightarrow> \<not> isResponseCacheable p resp"
  by (simp add: isResponseCacheable_iff)

text \<open>
  Claim C7 says that \<^verbatim>\<open>isResponseCacheable(resp)\<close> holds exactly when the status is 200, the
  response's Cache-Control header does not contain \<^verbatim>\<open>no-store\<close> and no Set-Cookie header
  is present; the comments of the function say the same. As in \<^verbatim>\<open>isCacheable\<close>, only the
  first value under each name is read: a 200 response with the header lines
  \<^verbatim>\<open>Cache-Control: public\<close> and \<^verbatim>\<open>Cache-Control: no-store\<close>, and one with an empty
  \<^verbatim>\<open>Set-Cookie:\<close> line followed by \<^verbatim>\<open>Set-Cookie: sid=1\<close>, are both found cacheable.
\<close>

theorem isResponseCacheable_reads_first_value_only:
  "StatusCode split_no_store_response = 200
   \<and> values_of (RespHeader split_no_store_response) ''Cache-Control'' = [''public'', ''no-store'']
   \<and> isResponseCacheable p split_no_store_response
   \<and> values_of (RespHeader empty_first_cookie_response) ''Set-Cookie'' = [[], ''sid=1'']
   \<and> isResponseCacheable p empty_first_cookie_response"
  by (simp add: isResponseCacheable_def StatusOK_def split_no_store_response_def
      empty_first_cookie_response_def values_of_def ex_defs eval_defs)

subsection \<open>The cache key\<close>

text \<open>
  Claim C8: \<^verbatim>\<open>createCacheKey\<close> maps a request to its method, a colon and the text of its
  URL, with nothing normalised; equal methods and URL texts give equal keys, whichever
  handler computes them; another method with the same URL text, or another URL text
  with the same method, gives another key.
\<close>

theorem createCacheKey_injective:
  "createCacheKey p r = Method r @ '':'' @ String (URL r)
   \<and> (Method r = Method r' \<and> String (URL r) = String (URL r') \<longrightarrow>
        createCacheKey p r = createCacheKey p' r')
   \<and> (Method r \<noteq> Method r' \<and> String (URL r) = String (URL r') \<longrightarrow>
        createCacheKey p r \<noteq> createCacheKey p' r')
   \<and> (Method r = Method r' \<and> String (URL r) \<noteq> String (URL r') \<longrightarrow>
        createCacheKey p r \<noteq> createCacheKey p' r')"
  by (simp add: createCacheKey_def)

theorem createCacheKey_injective_witness:
  "createCacheKey ex_handler ex_get = ''GET:http://example.com/a''
   \<and> createCacheKey ex_handler ex_get
       = createCacheKey (NewProxyHandler Map.empty ex_listed) (ex_get\<lparr>Body := ''x''\<rparr>)
   \<and> createCacheKey ex_handler ex_get \<noteq> createCacheKey ex_handler (ex_get\<lparr>Method := ''HEAD''\<rparr>)
   \<and> createCacheKey ex_handler ex_get \<noteq> createCacheKey ex_handler ex_evil"
proof -
  note same = createCacheKey_injective [of ex_handler ex_get "ex_get\<lparr>Body := ''x''\<rparr>"
      "NewProxyHandler Map.empty ex_listed"]
  note other_verb = createCacheKey_injective [of ex_handler ex_get "ex_get\<lparr>Method := ''HEAD''\<rparr>"
      ex_handler]
  note target = createCacheKey_injective [of ex_handler ex_get ex_evil ex_handler]
  have rendered: "Method ex_get @ '':'' @ String (URL ex_get) = ''GET:http://example.com/a''"
    by (simp add: ex_get_def ex_url_def)
  have 1: "createCacheKey ex_handler ex_get = ''GET:http://example.com/a''"
    using same rendered by simp
  have "Method ex_get = Method (ex_get\<lparr>Body := ''x''\<rparr>) \<and>
        String (URL ex_get) = String (URL (ex_get\<lparr>Body := ''x''\<rparr>))"
    by simp
  with same have 2: "createCacheKey ex_handler ex_get
       = createCacheKey (NewProxyHandler Map.empty ex_listed) (ex_get\<lparr>Body := ''x''\<rparr>)"
    by blast
  have "Method ex_get \<noteq> Method (ex_get\<lparr>Method := ''HEAD''\<rparr>) \<and>
        String (URL ex_get) = String (URL (ex_get\<lparr>Method := ''HEAD''\<rparr>))"
    by (simp add: ex_get_def)
  with other_verb have 3:
    "createCacheKey ex_handler ex_get \<noteq> createCacheKey ex_handler (ex_get\<lparr>Method := ''HEAD''\<rparr>)"
    by blast
  have "Method ex_get = Method ex_evil \<and> String (URL ex_get) \<noteq> String (URL ex_evil)"
    by (simp add: ex_evil_def ex_get_def ex_url_def)
  with target have 4: "createCacheKey ex_handler ex_get \<noteq> createCacheKey ex_handler ex_evil"
    by blast
  from 1 2 3 4 show ?thesis by blast
qed

subsection \<open>The outbound request's headers\<close>

text \<open>
  Claim C9: when \<^verbatim>\<open>cloneRequest\<close> succeeds on a request whose header map is well formed
  (each key once, canonical, with at least one value), the outbound header map holds
  under every key exactly the inbound list of values, in the inbound order, except
  that \<^verbatim>\<open>X-Forwarded-For\<close> holds the client's address alone, \<^verbatim>\<open>X-Forwarded-Host\<close> the
  request's Host alone, whatever these two held before, and \<^verbatim>\<open>Connection\<close> is absent.
  The outbound map holds each key once.
\<close>

theorem cloneRequest_headers:
  assumes "wire_header (Header r)" and "cloneRequest p env r = Inr q"
  shows "map_of (Header q) k =
           (if k = ''Connection'' then None
            else if k = ''X-Forwarded-Host'' then Some [Host r]
            else if k = ''X-Forwarded-For'' then Some [RemoteAddr r]
            else map_of (Header r) k)
         \<and> distinct (map fst (Header q))"
proof -
  from assms(2) have hq: "Header q =
      Del (Set_hdr (Set_hdr (copy_header [] (Header r)) ''X-Forwarded-For'' (RemoteAddr r))
             ''X-Forwarded-Host'' (Host r)) ''Connection''"
    by (auto simp: cloneRequest_def Let_def split: sum.splits)
  have copy: "map_of (copy_header [] (Header r)) k = map_of (Header r) k"
    by (simp add: map_of_copy_header [OF assms(1)] values_of_def split: option.splits)
  show ?thesis
    by (simp add: hq Del_def Set_hdr_def canonical_literals delete_conv' update_conv' copy
        distinct_delete distinct_update distinct_copy_header)
qed

theorem cloneRequest_headers_witness:
  "wire_header (Header ex_get) \<and> cloneRequest ex_handler ex_env ex_get = Inr ex_out \<and>
   map_of (Header ex_get) ''Accept'' = Some [''text/plain'', ''*/*''] \<and>
   map_of (Header ex_out) ''Accept'' = Some [''text/plain'', ''*/*''] \<and>
   map_of (Header ex_get) ''Connection'' = Some [''keep-alive''] \<and>
   map_of (Header ex_out) ''Connection'' = None \<and>
   map_of (Header ex_get) ''X-Forwarded-For'' = Some [''203.0.113.9''] \<and>
   map_of (Header ex_out) ''X-Forwarded-For'' = Some [RemoteAddr ex_get] \<and>
   map_of (Header ex_out) ''X-Forwarded-Host'' = Some [Host ex_get] \<and>
   map_of (Header ex_out) ''Cookie'' = None"
proof -
  have wf: "wire_header (Header ex_get)"
    by (simp add: wire_header_def ex_get_def canon_simps)
  have clone: "cloneRequest ex_handler ex_env ex_get = Inr ex_out"
    by (rule ex_clone) (simp add: ex_env_def)
  note h = cloneRequest_headers [OF wf clone]
  have inbound: "map_of (Header ex_get) ''Accept'' = Some [''text/plain'', ''*/*'']"
    "map_of (Header ex_get) ''Connection'' = Some [''keep-alive'']"
    "map_of (Header ex_get) ''X-Forwarded-For'' = Some [''203.0.113.9'']"
    "map_of (Header ex_get) ''Cookie'' = None"
    by (simp_all add: ex_get_def)
  from h [of "''Accept''"] h [of "''Connection''"] h [of "''X-Forwarded-For''"]
    h [of "''X-Forwarded-Host''"] h [of "''Cookie''"] wf clone inbound
  show ?thesis by simp
qed

subsection \<open>Failure to build the outbound request\<close>

text \<open>
  Claim C10: when a request has passed validation, the domain check and the cache read
  path (it is not cacheable, or the cache has no entry for it) and the outbound request
  cannot be built, the handler answers with status 500, makes no outbound call and
  leaves the cache store as it was. Status 500 is not among 400, 403 and 502.
\<close>

theorem clone_failure_internal_error:
  assumes "Scheme (URL r) \<noteq> []" "UHost (URL r) \<noteq> []" "isDomainAllowed p (UHost (URL r))"
    and "\<not> isCacheable p r \<or> cache_Get (cache p) (createCacheKey p r) = None"
    and "cloneRequest p env r = Inl err"
  shows "\<exists>out. ServeHTTP p env new_response_writer r = Some out \<and>
           w_status (writer out) = Some 500 \<and>
           w_body (writer out) = ''Error creating proxy request: '' @ err @ [CHR 0x0A] \<and>
           outbound (trace out) = [] \<and> store out = cache p"
proof -
  from ServeHTTP_forward [OF assms(1-4)] obtain t where
    "ServeHTTP p env new_response_writer r = forward p env new_response_writer r t"
    "outbound t = []" by blast
  then show ?thesis by (simp add: forward_clone_error [OF assms(5)])
qed

theorem clone_failure_internal_error_witness:
  "\<not> isCacheable ex_handler ex_bad_method \<and>
   cloneRequest ex_handler ex_env ex_bad_method = Inl (''net/http: invalid method '' @ [CHR 0x22] @ ''BAD METHOD'' @ [CHR 0x22]) \<and>
   (\<exists>out. ServeHTTP ex_handler ex_env new_response_writer ex_bad_method = Some out \<and>
      w_status (writer out) = Some 500 \<and>
      w_body (writer out) =
        ''Error creating proxy request: '' @ ''net/http: invalid method '' @ [CHR 0x22] @
          ''BAD METHOD'' @ [CHR 0x22] @ [CHR 0x0A] \<and>
      outbound (trace out) = [] \<and> store out = cache ex_handler)"
proof -
  have valid: "Scheme (URL ex_bad_method) \<noteq> []" "UHost (URL ex_bad_method) \<noteq> []"
    by (simp_all add: ex_defs)
  have allowed: "isDomainAllowed ex_handler (UHost (URL ex_bad_method))"
    unfolding ex_handler_def by (rule ex_allowed)
  have uncacheable: "\<not> isCacheable ex_handler ex_bad_method"
    by (simp add: ex_handler_def isCacheable_iff) (simp add: ex_defs)
  from clone_failure_internal_error [OF valid allowed disjI1 [OF uncacheable] ex_bad_method_clone]
  show ?thesis using uncacheable ex_bad_method_clone by simp
qed

end
